theory Spec2Isabelle
  imports Complex_Main
begin

section \<open>Arrays, mappings and errors\<close>

text \<open>
  The program computes on JAX arrays of floats. The embedding takes the numbers to be
  real numbers: a one-dimensional array is a list of reals, a two-dimensional array a list
  of rows. Rounding, overflow and NaN are therefore outside the model; everything below is
  about the arithmetic the code writes down.

  A \<^verbatim>\<open>xax.FrozenDict[str, Array]\<close> is a partial map from names to arrays. Every
  exception the code can raise is a value of \<open>error\<close>.
\<close>

type_synonym vec = "real list"

datatype error =
    KeyError string     \<comment> \<open>a mapping was subscripted with a key it does not hold\<close>
  | ValueError string   \<comment> \<open>\<^verbatim>\<open>raise ValueError(message)\<close>\<close>
  | IndexError          \<comment> \<open>an integer index into an axis of size 0\<close>
  | ShapeError          \<comment> \<open>shapes that neither agree nor broadcast, or a reshape to another size\<close>

definition and_then :: "error + 'a \<Rightarrow> ('a \<Rightarrow> error + 'b) \<Rightarrow> error + 'b" where
  "and_then r k = (case r of Inl e \<Rightarrow> Inl e | Inr v \<Rightarrow> k v)"

definition getitem :: "(string \<rightharpoonup> 'a) \<Rightarrow> string \<Rightarrow> error + 'a" where
  \<comment> \<open>\<^verbatim>\<open>d[k]\<close>\<close>
  "getitem d k = (case d k of None \<Rightarrow> Inl (KeyError k) | Some v \<Rightarrow> Inr v)"

definition broadcast2 :: "(real \<Rightarrow> real \<Rightarrow> real) \<Rightarrow> vec \<Rightarrow> vec \<Rightarrow> error + vec" where
  \<comment> \<open>an elementwise binary operation on two one-dimensional arrays, with NumPy broadcasting\<close>
  "broadcast2 f xs ys =
     (if length xs = length ys then Inr (map2 f xs ys)
      else if length xs = 1 then Inr (map (f (hd xs)) ys)
      else if length ys = 1 then Inr (map (\<lambda>x. f x (hd ys)) xs)
      else Inl ShapeError)"

definition jnp_where :: "bool \<Rightarrow> vec \<Rightarrow> vec \<Rightarrow> error + vec" where
  \<comment> \<open>\<^verbatim>\<open>jnp.where(c, x, y)\<close> with a scalar condition: a select per element\<close>
  "jnp_where c xs ys = broadcast2 (\<lambda>x y. if c then x else y) xs ys"

definition trunc :: "real \<Rightarrow> int" where
  \<comment> \<open>rounding towards zero\<close>
  "trunc x = (if 0 \<le> x then \<lfloor>x\<rfloor> else \<lceil>x\<rceil>)"

definition fmod :: "real \<Rightarrow> real \<Rightarrow> real" where
  \<comment> \<open>\<^verbatim>\<open>jnp.fmod\<close>: the remainder of C, with the sign of the dividend\<close>
  "fmod a b = a - b * of_int (trunc (a / b))"

definition linalg_norm :: "vec \<Rightarrow> real" where
  \<comment> \<open>\<^verbatim>\<open>jnp.linalg.norm(x, axis=-1)\<close> of a one-dimensional array\<close>
  "linalg_norm xs = sqrt (sum_list (map (\<lambda>x. x * x) xs))"

section \<open>The phase observation\<close>

record ObservationInput =
  commands :: "string \<rightharpoonup> vec"
  time :: real   \<comment> \<open>\<^verbatim>\<open>state.physics_state.data.time\<close>\<close>

definition TimestepObservation_observe :: "ObservationInput \<Rightarrow> vec" where
  \<comment> \<open>the base class \<^verbatim>\<open>ksim.TimestepObservation\<close>: the elapsed time as an array of shape (1,)\<close>
  "TimestepObservation_observe state = [time state]"

record TimestepPhaseObservation =
  ctrl_dt :: real
  stand_still_threshold :: real

definition TimestepPhaseObservation_phase ::
  "TimestepPhaseObservation \<Rightarrow> vec \<Rightarrow> vec \<Rightarrow> error + vec" where
  \<comment> \<open>the phase of \<^verbatim>\<open>observe\<close> before the stand-still override, in exact arithmetic
      (the code evaluates the same formula in 32-bit floats)\<close>
  "TimestepPhaseObservation_phase self gait_freq timestep =
     (let steps = map (\<lambda>t. t / TimestepPhaseObservation.ctrl_dt self) timestep;
          phase_dt = map (\<lambda>g. 2 * pi * g * TimestepPhaseObservation.ctrl_dt self) gait_freq;
          start_phase = [0, pi]
      in and_then (broadcast2 (*) steps phase_dt) (\<lambda>advance.
         and_then (broadcast2 (+) start_phase advance) (\<lambda>phase.
         Inr (map (\<lambda>p. fmod (p + pi) (2 * pi) - pi) phase))))"

definition observe :: "TimestepPhaseObservation \<Rightarrow> ObservationInput \<Rightarrow> error + vec" where
  "observe self state =
     and_then (getitem (commands state) ''gait_frequency_command'') (\<lambda>gait_freq.
     let timestep = TimestepObservation_observe state in
     and_then (TimestepPhaseObservation_phase self gait_freq timestep) (\<lambda>phase.
     and_then (getitem (commands state) ''linear_velocity_command'') (\<lambda>vel_cmd.
     and_then (getitem (commands state) ''angular_velocity_command'') (\<lambda>ang_vel_cmd.
     let cmd_norm = linalg_norm (vel_cmd @ ang_vel_cmd) in
     and_then (jnp_where (cmd_norm < TimestepPhaseObservation.stand_still_threshold self)
                 [pi / 2, pi] phase) (\<lambda>phase.
     Inr (map cos phase @ map sin phase))))))"

section \<open>Trajectories\<close>

text \<open>
  A \<^verbatim>\<open>ksim.Trajectory\<close> is a tree of arrays. The reward terms receive it with a leading
  time axis on every leaf (\<open>'a = vec list\<close>, one row per step); \<^verbatim>\<open>jax.lax.scan\<close> hands
  \<^verbatim>\<open>scan_fn\<close> one time slice after the other (\<open>'a = vec\<close>). All leaves of one trajectory
  have the same number of rows.
\<close>

record ('a, 'b, 't) Trajectory =
  obs :: "string \<rightharpoonup> 'a"
  command :: "string \<rightharpoonup> 'a"
  action :: 'a
  qpos :: 'a
  "done" :: 'b
  success :: 'b
  timestep :: 't

type_synonym trajectory = "(vec list, bool list, vec) Trajectory"
type_synonym transition = "(vec, bool, real) Trajectory"

definition unstack :: "trajectory \<Rightarrow> transition list" where
  \<comment> \<open>the time slices \<^verbatim>\<open>jax.lax.scan\<close> iterates over\<close>
  "unstack tr =
     map (\<lambda>t. \<lparr>obs = (\<lambda>k. map_option (\<lambda>a. a ! t) (obs tr k)),
               command = (\<lambda>k. map_option (\<lambda>a. a ! t) (command tr k)),
               action = action tr ! t, qpos = qpos tr ! t,
               done = done tr ! t, success = success tr ! t,
               timestep = timestep tr ! t\<rparr>)
         [0..<length (done tr)]"

fun collect :: "(error + 'a) list \<Rightarrow> error + 'a list" where
  "collect [] = Inr []"
| "collect (r # rs) = and_then r (\<lambda>v. and_then (collect rs) (\<lambda>vs. Inr (v # vs)))"

definition batched :: "('a \<Rightarrow> error + 'c) \<Rightarrow> 'a list \<Rightarrow> error + 'c list" where
  \<comment> \<open>a row operation applied along the leading axis; the first failing row fails the whole\<close>
  "batched f xs = collect (map f xs)"

definition batched2 :: "('a \<Rightarrow> 'b \<Rightarrow> error + 'c) \<Rightarrow> 'a list \<Rightarrow> 'b list \<Rightarrow> error + 'c list" where
  \<comment> \<open>a binary row operation along the leading axes of two arrays, which broadcast\<close>
  "batched2 f xs ys =
     (if length xs = length ys then collect (map2 f xs ys)
      else if length xs = 1 then collect (map (f (hd xs)) ys)
      else if length ys = 1 then collect (map (\<lambda>x. f x (hd ys)) xs)
      else Inl ShapeError)"

definition getindex :: "'a list \<Rightarrow> nat \<Rightarrow> error + 'a" where
  \<comment> \<open>\<^verbatim>\<open>a[i]\<close> and \<^verbatim>\<open>a[..., i]\<close> with a constant \<open>i\<close>: JAX clamps an index beyond the end, and
      refuses an axis of size 0\<close>
  "getindex xs i = (if xs = [] then Inl IndexError else Inr (xs ! min i (length xs - 1)))"

definition gate :: "real \<Rightarrow> bool \<Rightarrow> real" where
  \<comment> \<open>\<^verbatim>\<open>reward * mask\<close>: a boolean counts as 0 or 1\<close>
  "gate r b = r * of_bool b"

section \<open>The foot phase reward\<close>

record FeetPhaseReward =
  scale :: real
  feet_pos_obs_name :: string
  linear_velocity_cmd_name :: string
  angular_velocity_cmd_name :: string
  gait_freq_cmd_name :: string
  max_foot_height :: real
  ctrl_dt :: real
  sensitivity :: real
  foot_default_height :: real
  stand_still_threshold :: real

definition jnp_int32 :: "real \<Rightarrow> int" where
  \<comment> \<open>\<^verbatim>\<open>jnp.int32(x)\<close> of a float: towards zero, saturating at the ends of the type\<close>
  "jnp_int32 x = max (- 2147483648) (min 2147483647 (trunc x))"

definition jnp_clip :: "real \<Rightarrow> real \<Rightarrow> real \<Rightarrow> real" where
  "jnp_clip x lo hi = min (max x lo) hi"

definition cubic_bezier_interpolation :: "real \<Rightarrow> real \<Rightarrow> real \<Rightarrow> real" where
  \<comment> \<open>Modelled from the spec: \<^verbatim>\<open>xax.cubic_bezier_interpolation\<close> is library code that is not
      among the sources. The spec asks for the standard smoothstep-like cubic Bezier curve
      that starts and ends at the given endpoints with zero derivative there.\<close>
  "cubic_bezier_interpolation y_start y_end x =
     (let y_diff = y_end - y_start;
          bezier = x ^ 3 + 3 * (x ^ 2 * (1 - x))
      in y_start + y_diff * bezier)"

definition gait_phase :: "FeetPhaseReward \<Rightarrow> real \<Rightarrow> real \<Rightarrow> real" where
  "gait_phase self phi swing_height =
     (let x = (phi + pi) / (2 * pi);
          x = jnp_clip x 0 1;
          stance = cubic_bezier_interpolation 0 swing_height (2 * x);
          swing = cubic_bezier_interpolation swing_height 0 (2 * x - 1)
      in if x \<le> 0.5 then stance else swing)"

definition FeetPhaseReward_phase :: "FeetPhaseReward \<Rightarrow> vec \<Rightarrow> real \<Rightarrow> error + vec" where
  \<comment> \<open>one row of \<^verbatim>\<open>phase\<close> in \<^verbatim>\<open>get_reward\<close>, from the rows of the gait frequency command and
      of the elapsed time\<close>
  "FeetPhaseReward_phase self gait_freq t =
     (let phase_dt = map (\<lambda>g. 2 * pi * g * FeetPhaseReward.ctrl_dt self) gait_freq;
          steps = of_int (jnp_int32 (t / FeetPhaseReward.ctrl_dt self));
          steps = [steps, steps];
          start_phase = [0, pi]
      in and_then (broadcast2 (*) steps phase_dt) (\<lambda>advance.
         and_then (broadcast2 (+) start_phase advance) (\<lambda>phase.
         Inr (map (\<lambda>p. fmod (p + pi) (2 * pi) - pi) phase))))"

definition FeetPhaseReward_get_reward :: "FeetPhaseReward \<Rightarrow> trajectory \<Rightarrow> error + vec" where
  "FeetPhaseReward_get_reward self trajectory =
     (if obs trajectory (feet_pos_obs_name self) = None then
        Inl (ValueError (''Observation '' @ feet_pos_obs_name self
               @ '' not found; add it as an observation in your task.''))
      else if command trajectory (gait_freq_cmd_name self) = None then
        Inl (ValueError (''Command '' @ gait_freq_cmd_name self
               @ '' not found; add it as a command in your task.''))
      else
        and_then (getitem (command trajectory) (gait_freq_cmd_name self)) (\<lambda>gait_freq_n.
        and_then (batched2 (FeetPhaseReward_phase self) gait_freq_n (timestep trajectory)) (\<lambda>phase.
        and_then (getitem (obs trajectory) (feet_pos_obs_name self)) (\<lambda>foot_pos.
        and_then (batched (\<lambda>row. and_then (getindex row 2) (\<lambda>z_left.
                                  and_then (getindex row 5) (\<lambda>z_right.
                                  Inr [z_left, z_right]))) foot_pos) (\<lambda>foot_z.
        let ideal_z = map (map (\<lambda>phi. gait_phase self phi (max_foot_height self))) phase in
        and_then (batched2 (broadcast2 (-)) foot_z ideal_z) (\<lambda>diff.
        let error = map (\<lambda>d. sum_list (map (\<lambda>x. x * x) d)) diff;
            reward = map (\<lambda>e. exp (- e / FeetPhaseReward.sensitivity self)) error
        in
        and_then (getitem (command trajectory) (FeetPhaseReward.linear_velocity_cmd_name self)) (\<lambda>vel_cmd.
        and_then (getitem (command trajectory) (FeetPhaseReward.angular_velocity_cmd_name self)) (\<lambda>ang_vel_cmd.
        and_then (batched2 (\<lambda>v w. Inr (v @ w)) vel_cmd ang_vel_cmd) (\<lambda>cat.
        let command_norm = map linalg_norm cat in
        batched2 (\<lambda>r n. Inr (gate r (n > FeetPhaseReward.stand_still_threshold self)))
          reward command_norm)))))))))"

section \<open>Velocity tracking, foot slip and standing still\<close>

datatype NormType = L1 | L2

definition get_norm :: "real \<Rightarrow> NormType \<Rightarrow> real" where
  \<comment> \<open>\<^verbatim>\<open>xax.get_norm\<close>, elementwise: the absolute value or the square\<close>
  "get_norm x n = (case n of L1 \<Rightarrow> \<bar>x\<bar> | L2 \<Rightarrow> x * x)"

record LinearVelocityTrackingReward =
  error_scale :: real
  linvel_obs_name :: string
  command_name :: string
  norm :: NormType
  stand_still_threshold :: real

definition LinearVelocityTrackingReward_get_reward ::
  "LinearVelocityTrackingReward \<Rightarrow> trajectory \<Rightarrow> error + vec" where
  "LinearVelocityTrackingReward_get_reward self trajectory =
     (if obs trajectory (linvel_obs_name self) = None then
        Inl (ValueError (''Observation '' @ linvel_obs_name self
               @ '' not found; add it as an observation in your task.''))
      else
        and_then (getitem (command trajectory) (command_name self)) (\<lambda>command.
        and_then (getitem (obs trajectory) (linvel_obs_name self)) (\<lambda>linvel.
        and_then (batched2 (\<lambda>c v. broadcast2 (-) c (take 2 v)) command linvel) (\<lambda>diff.
        let lin_vel_error =
              map (\<lambda>d. sum_list (map (\<lambda>x. get_norm x (LinearVelocityTrackingReward.norm self)) d)) diff;
            reward_value = map (\<lambda>e. exp (- e / error_scale self)) lin_vel_error;
            command_norm = map linalg_norm command
        in batched2 (\<lambda>r n. Inr (gate r (n > LinearVelocityTrackingReward.stand_still_threshold self)))
             reward_value command_norm))))"

record FeetSlipPenalty =
  scale :: real
  com_vel_obs_name :: string
  feet_contact_obs_name :: string

definition FeetSlipPenalty_get_reward :: "FeetSlipPenalty \<Rightarrow> trajectory \<Rightarrow> error + vec" where
  "FeetSlipPenalty_get_reward self trajectory =
     (if obs trajectory (feet_contact_obs_name self) = None then
        Inl (ValueError (''Observation '' @ feet_contact_obs_name self
               @ '' not found; add it as an observation in your task.''))
      else
        and_then (getitem (obs trajectory) (feet_contact_obs_name self)) (\<lambda>contact.
        and_then (getitem (obs trajectory) (com_vel_obs_name self)) (\<lambda>com_vel.
        let body_vel = map (take 2) com_vel;
            normed_body_vel = map (\<lambda>v. [linalg_norm v]) body_vel
        in and_then (batched2 (broadcast2 (*)) normed_body_vel contact) (\<lambda>weighted.
           Inr (map sum_list weighted)))))"

record StandStillReward =
  scale :: real
  sensitivity :: real
  norm :: NormType
  linear_velocity_cmd_name :: string
  angular_velocity_cmd_name :: string
  joint_targets :: vec
  stand_still_threshold :: real

definition StandStillReward_get_reward :: "StandStillReward \<Rightarrow> trajectory \<Rightarrow> error + vec" where
  "StandStillReward_get_reward self trajectory =
     and_then (getitem (command trajectory) (StandStillReward.linear_velocity_cmd_name self)) (\<lambda>vel_cmd.
     and_then (getitem (command trajectory) (StandStillReward.angular_velocity_cmd_name self)) (\<lambda>ang_vel_cmd.
     and_then (batched2 (\<lambda>v w. Inr (v @ w)) vel_cmd ang_vel_cmd) (\<lambda>cat.
     let cmd_norm = map linalg_norm cat in
     and_then (batched (\<lambda>q. broadcast2 (-) (drop 7 q) (joint_targets self)) (qpos trajectory)) (\<lambda>diff.
     let error = map (\<lambda>d. sum_list (map (\<lambda>x. x * x) d)) diff;
         reward = map (\<lambda>e. exp (- e / StandStillReward.sensitivity self)) error
     in batched2 (\<lambda>r n. Inr (gate r (n < StandStillReward.stand_still_threshold self)))
          reward cmd_norm))))"

section \<open>The actor and the critic\<close>

definition NUM_JOINTS :: nat where
  "NUM_JOINTS = 20"

definition radians :: "real \<Rightarrow> real" where
  "radians d = d * pi / 180"

definition ZEROS :: "(string \<times> real) list" where
  "ZEROS =
    [(''dof_right_shoulder_pitch_03'', 0),
     (''dof_right_shoulder_roll_03'', radians (- 10)),
     (''dof_right_shoulder_yaw_02'', 0),
     (''dof_right_elbow_02'', radians 15),
     (''dof_right_wrist_00'', 0),
     (''dof_left_shoulder_pitch_03'', 0),
     (''dof_left_shoulder_roll_03'', radians 10),
     (''dof_left_shoulder_yaw_02'', 0),
     (''dof_left_elbow_02'', radians (- 15)),
     (''dof_left_wrist_00'', 0),
     (''dof_right_hip_pitch_04'', radians (- 25)),
     (''dof_right_hip_roll_03'', radians (- 5)),
     (''dof_right_hip_yaw_03'', 0),
     (''dof_right_knee_04'', radians (- 50)),
     (''dof_right_ankle_02'', radians 25),
     (''dof_left_hip_pitch_04'', radians 25),
     (''dof_left_hip_roll_03'', radians 5),
     (''dof_left_hip_yaw_03'', 0),
     (''dof_left_knee_04'', radians 50),
     (''dof_left_ankle_02'', radians (- 25))]"

text \<open>
  The layers (\<^verbatim>\<open>eqx.nn.Linear\<close>, \<^verbatim>\<open>eqx.nn.GRUCell\<close>) are learned functions of the library:
  each is a field of function type, free to fail on an input of the wrong size. The
  recurrent memory of a network is a list of rows, one per recurrent layer.
\<close>

type_synonym linear = "vec \<Rightarrow> error + vec"
type_synonym gru_cell = "vec \<Rightarrow> vec \<Rightarrow> error + vec"
type_synonym carry = "vec list"

record Actor =
  input_proj :: linear
  rnns :: "gru_cell list"
  output_proj :: linear
  num_inputs :: nat
  num_outputs :: nat
  num_mixtures :: nat
  min_std :: real
  max_std :: real
  var_scale :: real

record Critic =
  input_proj :: linear
  rnns :: "gru_cell list"
  output_proj :: linear

record Model =
  actor :: Actor
  critic :: Critic

record MixtureOfGaussians =
  means_nm :: "vec list"
  stds_nm :: "vec list"
  logits_nm :: "vec list"

fun rnn_loop :: "gru_cell list \<Rightarrow> nat \<Rightarrow> carry \<Rightarrow> vec \<Rightarrow> vec list \<Rightarrow> error + vec \<times> vec list" where
  \<comment> \<open>\<^verbatim>\<open>for i, rnn in enumerate(self.rnns)\<close>, from index \<open>i\<close> on\<close>
  "rnn_loop [] i carry x_n out_carries = Inr (x_n, out_carries)"
| "rnn_loop (rnn # rest) i carry x_n out_carries =
     and_then (getindex carry i) (\<lambda>h.
     and_then (rnn x_n h) (\<lambda>x_n.
     rnn_loop rest (Suc i) carry x_n (out_carries @ [x_n])))"

definition jnp_stack :: "vec list \<Rightarrow> error + vec list" where
  \<comment> \<open>\<^verbatim>\<open>jnp.stack(arrays, axis=0)\<close>\<close>
  "jnp_stack arrays =
     (if arrays = [] then Inl (ValueError ''Need at least one array to stack.'')
      else if list_all (\<lambda>a. length a = length (hd arrays)) arrays then Inr arrays
      else Inl ShapeError)"

definition reshape :: "vec \<Rightarrow> nat \<Rightarrow> nat \<Rightarrow> error + vec list" where
  \<comment> \<open>\<^verbatim>\<open>a.reshape(r, c)\<close>, row-major\<close>
  "reshape a r c =
     (if length a = r * c then Inr (map (\<lambda>i. take c (drop (i * c) a)) [0..<r])
      else Inl ShapeError)"

definition softplus :: "real \<Rightarrow> real" where
  \<comment> \<open>\<^verbatim>\<open>jax.nn.softplus\<close>\<close>
  "softplus x = ln (1 + exp x)"

definition Actor_std :: "Actor \<Rightarrow> real \<Rightarrow> real" where
  \<comment> \<open>one entry of \<^verbatim>\<open>jnp.clip((jax.nn.softplus(std_nm) + self.min_std) * self.var_scale,
      max=self.max_std)\<close>\<close>
  "Actor_std self raw = min ((softplus raw + min_std self) * var_scale self) (max_std self)"

definition Actor_forward :: "Actor \<Rightarrow> vec \<Rightarrow> carry \<Rightarrow> error + MixtureOfGaussians \<times> carry" where
  "Actor_forward self obs_n carry =
     and_then (Actor.input_proj self obs_n) (\<lambda>x_n.
     and_then (rnn_loop (Actor.rnns self) 0 carry x_n []) (\<lambda>(x_n, out_carries).
     and_then (Actor.output_proj self x_n) (\<lambda>out_n.
     let slice_len = NUM_JOINTS * num_mixtures self in
     and_then (reshape (take slice_len out_n) NUM_JOINTS (num_mixtures self)) (\<lambda>mean_nm.
     and_then (reshape (take slice_len (drop slice_len out_n)) NUM_JOINTS (num_mixtures self)) (\<lambda>std_nm.
     and_then (reshape (drop (slice_len * 2) out_n) NUM_JOINTS (num_mixtures self)) (\<lambda>logits_nm.
     let std_nm = map (map (Actor_std self)) std_nm;
         mean_nm = map2 (\<lambda>row v. map (\<lambda>m. m + v) row) mean_nm (map snd ZEROS);
         dist_n = \<lparr>means_nm = mean_nm, stds_nm = std_nm, logits_nm = logits_nm\<rparr>
     in and_then (jnp_stack out_carries) (\<lambda>stacked. Inr (dist_n, stacked))))))))"

definition Critic_forward :: "Critic \<Rightarrow> vec \<Rightarrow> carry \<Rightarrow> error + vec \<times> carry" where
  "Critic_forward self obs_n carry =
     and_then (Critic.input_proj self obs_n) (\<lambda>x_n.
     and_then (rnn_loop (Critic.rnns self) 0 carry x_n []) (\<lambda>(x_n, out_carries).
     and_then (Critic.output_proj self x_n) (\<lambda>out_n.
     and_then (jnp_stack out_carries) (\<lambda>stacked. Inr (out_n, stacked)))))"

section \<open>The task\<close>

record KbotWalkingTaskConfig =
  stand_still_threshold :: real
  hidden_size :: nat
  depth :: nat
  num_mixtures :: nat

definition run_actor ::
  "Actor \<Rightarrow> (string \<rightharpoonup> vec) \<Rightarrow> (string \<rightharpoonup> vec) \<Rightarrow> carry \<Rightarrow> error + MixtureOfGaussians \<times> carry" where
  "run_actor model observations = (\<lambda>commands carry.
     and_then (getitem observations ''timestep_phase_observation'') (\<lambda>timestep_phase_4.
     and_then (getitem observations ''joint_position_observation'') (\<lambda>joint_pos_n.
     and_then (getitem observations ''joint_velocity_observation'') (\<lambda>joint_vel_n.
     and_then (getitem observations ''projected_gravity_observation'') (\<lambda>proj_grav_3.
     and_then (getitem observations ''sensor_observation_imu_gyro'') (\<lambda>imu_gyro_3.
     and_then (getitem observations ''sensor_observation_imu_acc'') (\<lambda>imu_acc_3.
     and_then (getitem commands ''linear_velocity_command'') (\<lambda>lin_vel_cmd_2.
     and_then (getitem commands ''angular_velocity_command'') (\<lambda>ang_vel_cmd.
     and_then (getitem commands ''gait_frequency_command'') (\<lambda>gait_freq_cmd.
     let obs_n = concat
           [timestep_phase_4,
            joint_pos_n,
            joint_vel_n,
            proj_grav_3,
            imu_acc_3,
            imu_gyro_3,
            lin_vel_cmd_2,
            ang_vel_cmd,
            gait_freq_cmd]
     in Actor_forward model obs_n carry))))))))))"

definition run_critic ::
  "Critic \<Rightarrow> (string \<rightharpoonup> vec) \<Rightarrow> (string \<rightharpoonup> vec) \<Rightarrow> carry \<Rightarrow> error + vec \<times> carry" where
  "run_critic model observations = (\<lambda>commands carry.
     and_then (getitem observations ''timestep_phase_observation'') (\<lambda>timestep_phase_4.
     and_then (getitem observations ''joint_position_observation'') (\<lambda>joint_pos_n.
     and_then (getitem observations ''joint_velocity_observation'') (\<lambda>joint_vel_n.
     and_then (getitem observations ''projected_gravity_observation'') (\<lambda>proj_grav_3.
     and_then (getitem observations ''sensor_observation_imu_gyro'') (\<lambda>imu_gyro_3.
     and_then (getitem observations ''sensor_observation_imu_acc'') (\<lambda>imu_acc_3.
     and_then (getitem commands ''linear_velocity_command'') (\<lambda>lin_vel_cmd_2.
     and_then (getitem commands ''angular_velocity_command'') (\<lambda>ang_vel_cmd.
     and_then (getitem commands ''gait_frequency_command'') (\<lambda>gait_freq_cmd.
     and_then (getitem observations ''feet_contact_observation'') (\<lambda>feet_contact_4.
     and_then (getitem observations ''feet_position_observation'') (\<lambda>feet_position_6.
     and_then (getitem observations ''base_position_observation'') (\<lambda>base_position_3.
     and_then (getitem observations ''base_orientation_observation'') (\<lambda>base_orientation_4.
     and_then (getitem observations ''base_linear_velocity_observation'') (\<lambda>base_linear_velocity_3.
     and_then (getitem observations ''base_angular_velocity_observation'') (\<lambda>base_angular_velocity_3.
     and_then (getitem observations ''actuator_force_observation'') (\<lambda>actuator_force_n.
     let obs_n = concat
           [timestep_phase_4,
            joint_pos_n,
            map (\<lambda>v. v / 10) joint_vel_n,
            proj_grav_3,
            imu_acc_3,
            imu_gyro_3,
            lin_vel_cmd_2,
            ang_vel_cmd,
            gait_freq_cmd,
            feet_contact_4,
            feet_position_6,
            base_position_3,
            base_orientation_4,
            base_linear_velocity_3,
            base_angular_velocity_3,
            map (\<lambda>v. v / 100) actuator_force_n]
     in Critic_forward model obs_n carry)))))))))))))))))"

definition get_initial_model_carry :: "KbotWalkingTaskConfig \<Rightarrow> 'rng \<Rightarrow> carry \<times> carry" where
  "get_initial_model_carry config rng =
     (replicate (depth config) (replicate (hidden_size config) 0),
      replicate (depth config) (replicate (hidden_size config) 0))"

text \<open>
  The methods of the action distribution (\<^verbatim>\<open>ksim.MixtureOfGaussians\<close>) are library code:
  they are parameters of the functions that call them.
\<close>

record 'rng distribution_methods =
  log_prob :: "MixtureOfGaussians \<Rightarrow> vec \<Rightarrow> error + vec"
  mode :: "MixtureOfGaussians \<Rightarrow> vec"
  sample :: "MixtureOfGaussians \<Rightarrow> 'rng \<Rightarrow> vec"

record PPOVariables =
  log_probs :: vec
  "values" :: real

definition squeeze_last :: "vec \<Rightarrow> error + real" where
  \<comment> \<open>\<^verbatim>\<open>value.squeeze(-1)\<close> of a one-dimensional array\<close>
  "squeeze_last v = (case v of [x] \<Rightarrow> Inr x | _ \<Rightarrow> Inl ShapeError)"

definition where_carry :: "bool \<Rightarrow> carry \<Rightarrow> carry \<Rightarrow> error + carry" where
  \<comment> \<open>\<^verbatim>\<open>jnp.where(transition.done, x, y)\<close> on two memories\<close>
  "where_carry c x y = batched2 (jnp_where c) x y"

definition has_shape :: "carry \<Rightarrow> nat \<Rightarrow> nat \<Rightarrow> bool" where
  \<comment> \<open>a recurrent memory of \<open>d\<close> layers with \<open>h\<close> entries each, the shape
      \<^verbatim>\<open>(depth, hidden_size)\<close>\<close>
  "has_shape m d h = (length m = d \<and> list_all (\<lambda>row. length row = h) m)"

definition scan_fn ::
  "'rng distribution_methods \<Rightarrow> KbotWalkingTaskConfig \<Rightarrow> Model \<Rightarrow> 'rng \<Rightarrow>
     carry \<times> carry \<Rightarrow> transition \<Rightarrow> error + (carry \<times> carry) \<times> PPOVariables" where
  "scan_fn lib config model rng actor_critic_carry transition =
     (let (actor_carry, critic_carry) = actor_critic_carry in
      and_then (run_actor (actor model) (obs transition) (command transition) actor_carry)
        (\<lambda>(actor_dist, next_actor_carry).
      and_then (log_prob lib actor_dist (action transition)) (\<lambda>log_probs.
      and_then (run_critic (critic model) (obs transition) (command transition) critic_carry)
        (\<lambda>(value, next_critic_carry).
      and_then (squeeze_last value) (\<lambda>value.
      let transition_ppo_variables = \<lparr>log_probs = log_probs, values = value\<rparr>;
          (initial_actor_carry, initial_critic_carry) = get_initial_model_carry config rng
      in
      and_then (where_carry (done transition) initial_actor_carry next_actor_carry)
        (\<lambda>reset_actor_carry.
      and_then (where_carry (done transition) initial_critic_carry next_critic_carry)
        (\<lambda>reset_critic_carry.
      Inr ((reset_actor_carry, reset_critic_carry), transition_ppo_variables))))))))"

fun scan :: "('c \<Rightarrow> 'x \<Rightarrow> error + 'c \<times> 'y) \<Rightarrow> 'c \<Rightarrow> 'x list \<Rightarrow> error + 'c \<times> 'y list" where
  \<comment> \<open>\<^verbatim>\<open>jax.lax.scan(f, init, xs)\<close>\<close>
  "scan f c [] = Inr (c, [])"
| "scan f c (x # xs) =
     and_then (f c x) (\<lambda>(c', y).
     and_then (scan f c' xs) (\<lambda>(c_final, ys).
     Inr (c_final, y # ys)))"

definition get_ppo_variables ::
  "'rng distribution_methods \<Rightarrow> KbotWalkingTaskConfig \<Rightarrow> Model \<Rightarrow> trajectory \<Rightarrow>
     carry \<times> carry \<Rightarrow> 'rng \<Rightarrow> error + PPOVariables list \<times> (carry \<times> carry)" where
  "get_ppo_variables lib config model trajectory model_carry rng =
     and_then (scan (scan_fn lib config model rng) model_carry (unstack trajectory))
       (\<lambda>(next_model_carry, ppo_variables).
     Inr (ppo_variables, next_model_carry))"

definition carry_into ::
  "'rng distribution_methods \<Rightarrow> KbotWalkingTaskConfig \<Rightarrow> Model \<Rightarrow> trajectory \<Rightarrow>
     carry \<times> carry \<Rightarrow> 'rng \<Rightarrow> nat \<Rightarrow> error + carry \<times> carry" where
  \<comment> \<open>the memory pair that the scan of \<^verbatim>\<open>get_ppo_variables\<close> feeds into step \<open>t\<close>: what the
      scan of the first \<open>t\<close> steps leaves\<close>
  "carry_into lib config model trajectory model_carry rng t =
     and_then (scan (scan_fn lib config model rng) model_carry (take t (unstack trajectory)))
       (\<lambda>(c, ys). Inr c)"

record Action =
  action :: vec
  carry :: "carry \<times> carry"
  aux_outputs :: "unit option"

definition sample_action ::
  "'rng distribution_methods \<Rightarrow> Model \<Rightarrow> carry \<times> carry \<Rightarrow> (string \<rightharpoonup> vec) \<Rightarrow>
     (string \<rightharpoonup> vec) \<Rightarrow> 'rng \<Rightarrow> bool \<Rightarrow> error + Action" where
  \<comment> \<open>\<^verbatim>\<open>physics_model\<close> and \<^verbatim>\<open>physics_state\<close> are not read\<close>
  "sample_action lib model model_carry observations = (\<lambda>commands rng argmax.
     (let (actor_carry_in, critic_carry_in) = model_carry in
      and_then (run_actor (actor model) observations commands actor_carry_in)
        (\<lambda>(action_dist_j, actor_carry).
      let action_j = (if argmax then mode lib action_dist_j else sample lib action_dist_j rng)
      in Inr \<lparr>Action.action = action_j, carry = (actor_carry, critic_carry_in),
              aux_outputs = None\<rparr>)))"

section \<open>Example inputs\<close>

text \<open>
  Concrete inputs on which the theorems below are instantiated.
\<close>

definition example_trajectory :: trajectory where
  "example_trajectory =
     \<lparr>obs = [''feet_position_observation'' \<mapsto> [[0, 0, 0, 0, 0, 0], [0, 0, 1 / 10, 0, 0, 0]]],
      command = [''linear_velocity_command'' \<mapsto> [[1 / 100, 0], [1 / 2, 0]],
                 ''angular_velocity_command'' \<mapsto> [[0], [0]],
                 ''gait_frequency_command'' \<mapsto> [[6 / 5], [6 / 5]]],
      action = [replicate 20 0, replicate 20 0],
      qpos = [replicate 27 0, replicate 27 0],
      done = [False, False], success = [False, False],
      timestep = [0, 1 / 50]\<rparr>"

definition example_FeetPhaseReward :: FeetPhaseReward where
  "example_FeetPhaseReward =
     \<lparr>FeetPhaseReward.scale = 21 / 10, feet_pos_obs_name = ''feet_position_observation'',
      linear_velocity_cmd_name = ''linear_velocity_command'',
      angular_velocity_cmd_name = ''angular_velocity_command'',
      gait_freq_cmd_name = ''gait_frequency_command'',
      max_foot_height = 3 / 25, ctrl_dt = 1 / 50, sensitivity = 1 / 100,
      foot_default_height = 1 / 25, stand_still_threshold = 1 / 100\<rparr>"

definition example_StandStillReward :: StandStillReward where
  "example_StandStillReward =
     \<lparr>StandStillReward.scale = 1, sensitivity = 1 / 100, norm = L1,
      linear_velocity_cmd_name = ''linear_velocity_command'',
      angular_velocity_cmd_name = ''angular_velocity_command'',
      joint_targets = map snd ZEROS, stand_still_threshold = 1 / 100\<rparr>"


definition example_observations :: "string \<rightharpoonup> vec" where
  "example_observations =
     [''timestep_phase_observation'' \<mapsto> [0, - 1, 1, 0],
      ''joint_position_observation'' \<mapsto> replicate 20 0,
      ''joint_velocity_observation'' \<mapsto> replicate 20 0,
      ''projected_gravity_observation'' \<mapsto> [0, 0, - 1],
      ''sensor_observation_imu_gyro'' \<mapsto> [0, 0, 0],
      ''sensor_observation_imu_acc'' \<mapsto> [0, 0, 0],
      ''feet_contact_observation'' \<mapsto> [1, 1, 1, 1],
      ''feet_position_observation'' \<mapsto> [0, 0, 0, 0, 0, 0],
      ''base_position_observation'' \<mapsto> [0, 0, 1],
      ''base_orientation_observation'' \<mapsto> [1, 0, 0, 0],
      ''base_linear_velocity_observation'' \<mapsto> [0, 0, 0],
      ''base_angular_velocity_observation'' \<mapsto> [0, 0, 0],
      ''actuator_force_observation'' \<mapsto> replicate 20 0]"

definition example_commands :: "string \<rightharpoonup> vec" where
  "example_commands =
     [''linear_velocity_command'' \<mapsto> [1 / 2, 0],
      ''angular_velocity_command'' \<mapsto> [0],
      ''gait_frequency_command'' \<mapsto> [6 / 5]]"

definition example_actor :: Actor where
  "example_actor =
     \<lparr>Actor.input_proj = (\<lambda>x. Inr [sum_list x]),
      rnns = [\<lambda>x h. Inr (map2 (\<lambda>a b. a + b + 1) x h)],
      output_proj = (\<lambda>x. Inr (replicate 60 (sum_list x))),
      num_inputs = 54, num_outputs = 20, num_mixtures = 1,
      min_std = 1 / 100, max_std = 1, var_scale = 1\<rparr>"

definition example_critic :: Critic where
  "example_critic =
     \<lparr>Critic.input_proj = (\<lambda>x. Inr [sum_list x]),
      rnns = [\<lambda>x h. Inr (map2 (\<lambda>a b. a + b + 1) x h)],
      output_proj = (\<lambda>x. Inr [sum_list x])\<rparr>"

definition example_model :: Model where
  "example_model = \<lparr>actor = example_actor, critic = example_critic\<rparr>"

definition example_methods :: "nat distribution_methods" where
  "example_methods =
     \<lparr>log_prob = (\<lambda>d a. Inr (map (\<lambda>x. 0) a)),
      mode = (\<lambda>d. map hd (means_nm d)),
      sample = (\<lambda>d seed. map (\<lambda>row. hd row + of_nat seed) (means_nm d))\<rparr>"

definition example_privileged_observations :: "string \<rightharpoonup> vec" where
  "example_privileged_observations =
     example_observations
       (''feet_contact_observation'' \<mapsto> [0, 0, 0, 0],
        ''feet_position_observation'' \<mapsto> [1, 2, 3, 4, 5, 6],
        ''base_position_observation'' \<mapsto> [7, 8, 9],
        ''base_orientation_observation'' \<mapsto> [0, 1, 0, 0],
        ''base_linear_velocity_observation'' \<mapsto> [1, 1, 1],
        ''base_angular_velocity_observation'' \<mapsto> [2, 2, 2],
        ''actuator_force_observation'' \<mapsto> replicate 20 5)"

definition example_config :: KbotWalkingTaskConfig where
  "example_config =
     \<lparr>KbotWalkingTaskConfig.stand_still_threshold = 1 / 100, hidden_size = 1, depth = 1,
      num_mixtures = 1\<rparr>"

definition example_gru_model :: Model where
  "example_gru_model =
     \<lparr>actor = example_actor \<lparr>Actor.rnns := [\<lambda>x h. Inr [sum_list x + sum_list h + 1]]\<rparr>,
      critic = example_critic \<lparr>Critic.rnns := [\<lambda>x h. Inr [sum_list x + sum_list h + 1]]\<rparr>\<rparr>"

definition example_episode_end :: trajectory where
  "example_episode_end =
     \<lparr>obs = (\<lambda>k. map_option (\<lambda>v. [v, v, v, v]) (example_observations k)),
      command = (\<lambda>k. map_option (\<lambda>v. [v, v, v, v]) (example_commands k)),
      action = [replicate 20 0, replicate 20 0, replicate 20 0, replicate 20 0],
      qpos = [replicate 27 0, replicate 27 0, replicate 27 0, replicate 27 0],
      done = [False, False, True, False], success = [False, False, False, False],
      timestep = [0, 1 / 50, 2 / 50, 3 / 50]\<rparr>"




definition example_unwired_trajectory :: trajectory where
  "example_unwired_trajectory =
     \<lparr>obs = [''sensor_observation_base_site_linvel'' \<mapsto> [[1 / 2, 0, 0]],
             ''feet_contact_observation'' \<mapsto> [[1, 1, 1, 1]]],
      command = Map.empty,
      action = [replicate 20 0],
      qpos = [replicate 27 0],
      done = [False], success = [False],
      timestep = [0]\<rparr>"

definition example_LinearVelocityTrackingReward :: LinearVelocityTrackingReward where
  "example_LinearVelocityTrackingReward =
     \<lparr>error_scale = 1 / 4, linvel_obs_name = ''sensor_observation_base_site_linvel'',
      command_name = ''linear_velocity_command'', norm = L2,
      stand_still_threshold = 1 / 100\<rparr>"

definition example_FeetSlipPenalty :: FeetSlipPenalty where
  "example_FeetSlipPenalty =
     \<lparr>FeetSlipPenalty.scale = - 1 / 4,
      com_vel_obs_name = ''center_of_mass_velocity_observation'',
      feet_contact_obs_name = ''feet_contact_observation''\<rparr>"

section \<open>Evaluation rules\<close>

lemma and_then_Inr [simp]: "and_then (Inr v) k = k v"
  by (simp add: and_then_def)

lemma and_then_Inl [simp]: "and_then (Inl e) k = Inl e"
  by (simp add: and_then_def)

lemma getitem_Some [simp]: "d k = Some v \<Longrightarrow> getitem d k = Inr v"
  by (simp add: getitem_def)

lemma getitem_None [simp]: "d k = None \<Longrightarrow> getitem d k = Inl (KeyError k)"
  by (simp add: getitem_def)

lemma observe_phase_value:
  "TimestepPhaseObservation_phase self [f] [t] =
     Inr [fmod (t / TimestepPhaseObservation.ctrl_dt self * (2 * pi * f * TimestepPhaseObservation.ctrl_dt self) + pi) (2 * pi) - pi,
          fmod (pi + t / TimestepPhaseObservation.ctrl_dt self * (2 * pi * f * TimestepPhaseObservation.ctrl_dt self) + pi) (2 * pi) - pi]"
  by (simp add: TimestepPhaseObservation_phase_def broadcast2_def)

lemma reward_phase_value:
  "FeetPhaseReward_phase self [f] t =
     Inr [fmod (of_int (jnp_int32 (t / FeetPhaseReward.ctrl_dt self)) * (2 * pi * f * FeetPhaseReward.ctrl_dt self) + pi) (2 * pi) - pi,
          fmod (pi + of_int (jnp_int32 (t / FeetPhaseReward.ctrl_dt self)) * (2 * pi * f * FeetPhaseReward.ctrl_dt self) + pi) (2 * pi) - pi]"
  by (simp add: FeetPhaseReward_phase_def broadcast2_def Let_def)

section \<open>Remainders\<close>

lemma fmod_range:
  assumes "0 \<le> a" and "0 < b"
  shows "0 \<le> fmod a b" and "fmod a b < b"
proof -
  define n :: real where "n = of_int \<lfloor>a / b\<rfloor>"
  have q: "0 \<le> a / b" using assms by simp
  have f: "fmod a b = a - b * n" using q by (simp add: fmod_def trunc_def n_def)
  have "n \<le> a / b" unfolding n_def by simp
  then have "n * b \<le> a" using assms(2) by (simp add: pos_le_divide_eq)
  then show "0 \<le> fmod a b" unfolding f by (simp add: mult.commute)
  have "a / b < n + 1" unfolding n_def by linarith
  then have "a < (n + 1) * b" using assms(2) by (simp add: pos_divide_less_eq)
  then show "fmod a b < b" unfolding f by (simp add: algebra_simps)
qed

lemma fmod_add_period:
  assumes "0 \<le> a" and "0 < b"
  shows "fmod (a + b) b = fmod a b"
proof -
  have q: "0 \<le> a / b" using assms by simp
  have "(a + b) / b = a / b + 1" using assms(2) by (simp add: field_simps)
  moreover have "\<lfloor>a / b + 1\<rfloor> = \<lfloor>a / b\<rfloor> + 1" by simp
  ultimately show ?thesis using q by (simp add: fmod_def trunc_def algebra_simps)
qed

lemma jnp_int32_nonneg: "0 \<le> x \<Longrightarrow> 0 \<le> jnp_int32 x"
  by (simp add: jnp_int32_def trunc_def)

lemma wrap_range:
  assumes "0 \<le> a"
  shows "- pi \<le> fmod (a + pi) (2 * pi) - pi" and "fmod (a + pi) (2 * pi) - pi < pi"
  using fmod_range [of "a + pi" "2 * pi"] assms by simp_all

lemma fmod_pi: "fmod pi (2 * pi) = pi"
  by (simp add: fmod_def trunc_def)

lemma fmod_two_pi: "fmod (2 * pi) (2 * pi) = 0"
  by (simp add: fmod_def trunc_def)

section \<open>Bounds on pi\<close>

lemma sin_half_less: "sin (1 / 2 :: real) < 1 / 2"
proof -
  have "\<bar>sin (1/2::real) - (\<Sum>m<5. sin_coeff m * (1/2) ^ m)\<bar> \<le> inverse (fact 5) * \<bar>1/2::real\<bar> ^ 5"
    by (rule Maclaurin_sin_bound)
  then have "\<bar>sin (1/2::real) - 23 / 48\<bar> \<le> 1 / 3840"
    by (simp add: sin_coeff_def lessThan_nat_numeral fact_numeral power_divide)
  then show ?thesis by linarith
qed

lemma sin_seven_twelfths_greater: "1 / 2 < sin (7 / 12 :: real)"
proof -
  have "\<bar>sin (7/12::real) - (\<Sum>m<5. sin_coeff m * (7/12) ^ m)\<bar> \<le> inverse (fact 5) * \<bar>7/12::real\<bar> ^ 5"
    by (rule Maclaurin_sin_bound)
  then have "\<bar>sin (7/12::real) - 5705 / 10368\<bar> \<le> 16807 / 29859840"
    by (simp add: sin_coeff_def lessThan_nat_numeral fact_numeral power_divide)
  then show ?thesis by linarith
qed

lemma pi_greater_3: "3 < pi"
proof (rule ccontr)
  assume "\<not> 3 < pi"
  then have "pi / 6 \<le> 1 / 2" by simp
  moreover have "- (pi / 2) \<le> pi / 6" "(1 / 2 :: real) \<le> pi / 2"
    using pi_ge_two by simp_all
  ultimately have "sin (pi / 6) \<le> sin (1 / 2)"
    by (intro sin_monotone_2pi_le) simp_all
  then show False using sin_half_less by (simp add: sin_30)
qed

lemma pi_less_7_halves: "pi < 7 / 2"
proof (rule ccontr)
  assume "\<not> pi < 7 / 2"
  then have "7 / 12 \<le> pi / 6" by simp
  moreover have "- (pi / 2) \<le> 7 / 12" "pi / 6 \<le> pi / 2"
    using pi_ge_two by simp_all
  ultimately have "sin (7 / 12) \<le> sin (pi / 6)"
    by (intro sin_monotone_2pi_le) simp_all
  then show False using sin_seven_twelfths_greater by (simp add: sin_30)
qed


section \<open>The interpolant\<close>

lemma bezier_start: "cubic_bezier_interpolation a b 0 = a"
  by (simp add: cubic_bezier_interpolation_def)

lemma bezier_end: "cubic_bezier_interpolation a b 1 = b"
  by (simp add: cubic_bezier_interpolation_def)

lemma bezier_cont: "continuous (at x within S) (\<lambda>x. cubic_bezier_interpolation a b (c * x + d))"
  unfolding cubic_bezier_interpolation_def Let_def by (intro continuous_intros)

lemma branches_cont:
  "isCont (\<lambda>x. if x \<le> 1 / 2 then cubic_bezier_interpolation 0 h (2 * x)
                else cubic_bezier_interpolation h 0 (2 * x - 1)) (1 / 2)"
proof (rule isCont_If_ge)
  show "continuous (at_left (1 / 2)) (\<lambda>x. cubic_bezier_interpolation 0 h (2 * x))"
    using bezier_cont [of "1 / 2" "{..<1 / 2}" 0 h 2 0] by simp
  have "continuous (at_right (1 / 2)) (\<lambda>x. cubic_bezier_interpolation h 0 (2 * x - 1))"
    using bezier_cont [of "1 / 2" "{1 / 2<..}" h 0 2 "- 1"] by simp
  then show "((\<lambda>x. cubic_bezier_interpolation h 0 (2 * x - 1))
      \<longlongrightarrow> cubic_bezier_interpolation 0 h (2 * (1 / 2))) (at_right (1 / 2))"
    by (simp add: continuous_within bezier_start bezier_end)
qed

lemma clip_cont: "isCont (\<lambda>phi. jnp_clip ((phi + pi) / (2 * pi)) 0 1) 0"
  unfolding jnp_clip_def by (intro continuous_intros) simp

section \<open>Batched operations and gates\<close>

lemma and_then_eq_Inr: "and_then r k = Inr v \<longleftrightarrow> (\<exists>u. r = Inr u \<and> k u = Inr v)"
  by (cases r) simp_all

lemma collect_map_Inr: "collect (map (\<lambda>x. Inr (g x)) xs) = Inr (map g xs)"
  by (induction xs) simp_all

lemma collect_map2_Inr: "collect (map2 (\<lambda>x y. Inr (h x y)) xs ys) = Inr (map2 h xs ys)"
  by (induction xs ys rule: list_induct2') simp_all

lemma batched2_total:
  "batched2 (\<lambda>x y. Inr (h x y)) xs ys =
     (if length xs = length ys then Inr (map2 h xs ys)
      else if length xs = 1 then Inr (map (h (hd xs)) ys)
      else if length ys = 1 then Inr (map (\<lambda>x. h x (hd ys)) xs)
      else Inl ShapeError)"
  by (simp add: batched2_def collect_map_Inr collect_map2_Inr)

lemma gate_closed:
  assumes "batched2 (\<lambda>r n. Inr (gate r (P n))) rs ns = Inr out"
    and "t < length ns" and "t < length out" and "\<not> P (ns ! t)"
  shows "out ! t = 0"
proof -
  consider (eq) "length rs = length ns"
    | (left) "length rs \<noteq> length ns" "length rs = 1"
    | (right) "length rs \<noteq> length ns" "length rs \<noteq> 1" "length ns = 1"
    | (bad) "length rs \<noteq> length ns" "length rs \<noteq> 1" "length ns \<noteq> 1"
    by blast
  then show ?thesis
  proof cases
    case eq
    then have "out = map2 (\<lambda>r n. gate r (P n)) rs ns"
      using assms(1) by (simp add: batched2_total)
    then show ?thesis using eq assms by (simp add: gate_def)
  next
    case left
    then have "out = map (\<lambda>n. gate (hd rs) (P n)) ns"
      using assms(1) by (simp add: batched2_total)
    then show ?thesis using assms by (simp add: gate_def)
  next
    case right
    then have out: "out = map (\<lambda>r. gate r (P (hd ns))) rs"
      using assms(1) by (simp add: batched2_total)
    from right assms(2) have "t = 0" by simp
    moreover from right have "hd ns = ns ! 0" by (cases ns) simp_all
    ultimately show ?thesis using assms out by (simp add: gate_def)
  next
    case bad
    then show ?thesis using assms(1) by (simp add: batched2_total)
  qed
qed

lemma command_norm_row:
  assumes "batched2 (\<lambda>v w. Inr (v @ w)) vel_cmd ang_vel_cmd = Inr cat"
    and "length vel_cmd = length ang_vel_cmd" and "t < length vel_cmd"
  shows "t < length (map linalg_norm cat)"
    and "map linalg_norm cat ! t = linalg_norm (vel_cmd ! t @ ang_vel_cmd ! t)"
proof -
  have "cat = map2 (@) vel_cmd ang_vel_cmd"
    using assms(1,2) by (simp add: batched2_total)
  then show "t < length (map linalg_norm cat)"
    and "map linalg_norm cat ! t = linalg_norm (vel_cmd ! t @ ang_vel_cmd ! t)"
    using assms(2,3) by simp_all
qed

lemma FeetPhaseReward_closed:
  assumes "FeetPhaseReward_get_reward fp tr = Inr rf"
    and "command tr (FeetPhaseReward.linear_velocity_cmd_name fp) = Some vel_cmd"
    and "command tr (FeetPhaseReward.angular_velocity_cmd_name fp) = Some ang_vel_cmd"
    and "length vel_cmd = length ang_vel_cmd" and "t < length vel_cmd" and "t < length rf"
    and "\<not> linalg_norm (vel_cmd ! t @ ang_vel_cmd ! t) > FeetPhaseReward.stand_still_threshold fp"
  shows "rf ! t = 0"
proof -
  from assms(1,2,3) obtain reward cat where
    cat: "batched2 (\<lambda>v w. Inr (v @ w)) vel_cmd ang_vel_cmd = Inr cat" and
    out: "batched2 (\<lambda>r n. Inr (gate r (n > FeetPhaseReward.stand_still_threshold fp)))
            reward (map linalg_norm cat) = Inr rf"
    by (auto simp: FeetPhaseReward_get_reward_def and_then_eq_Inr Let_def split: if_splits)
  show ?thesis
    using gate_closed [OF out command_norm_row(1) [OF cat assms(4,5)] assms(6)]
      command_norm_row(2) [OF cat assms(4,5)] assms(7)
    by simp
qed

lemma StandStillReward_closed:
  assumes "StandStillReward_get_reward ss tr = Inr rs"
    and "command tr (StandStillReward.linear_velocity_cmd_name ss) = Some vel_cmd"
    and "command tr (StandStillReward.angular_velocity_cmd_name ss) = Some ang_vel_cmd"
    and "length vel_cmd = length ang_vel_cmd" and "t < length vel_cmd" and "t < length rs"
    and "\<not> linalg_norm (vel_cmd ! t @ ang_vel_cmd ! t) < StandStillReward.stand_still_threshold ss"
  shows "rs ! t = 0"
proof -
  from assms(1,2,3) obtain reward cat where
    cat: "batched2 (\<lambda>v w. Inr (v @ w)) vel_cmd ang_vel_cmd = Inr cat" and
    out: "batched2 (\<lambda>r n. Inr (gate r (n < StandStillReward.stand_still_threshold ss)))
            reward (map linalg_norm cat) = Inr rs"
    by (auto simp: StandStillReward_get_reward_def and_then_eq_Inr Let_def split: if_splits)
  show ?thesis
    using gate_closed [OF out command_norm_row(1) [OF cat assms(4,5)] assms(6)]
      command_norm_row(2) [OF cat assms(4,5)] assms(7)
    by simp
qed

lemma sqrt_hundredth: "sqrt (1 / 10000) = 1 / 100"
  by (rule real_sqrt_unique) (simp_all add: power2_eq_square)

lemma example_FeetPhaseReward_runs:
  "\<exists>a b. FeetPhaseReward_get_reward example_FeetPhaseReward example_trajectory = Inr [a, b]"
  by (simp add: FeetPhaseReward_get_reward_def example_FeetPhaseReward_def example_trajectory_def
      batched2_def batched_def getindex_def broadcast2_def reward_phase_value Let_def)

lemma example_StandStillReward_runs:
  "\<exists>a b. StandStillReward_get_reward example_StandStillReward example_trajectory = Inr [a, b]"
  by (simp add: StandStillReward_get_reward_def example_StandStillReward_def example_trajectory_def
      batched2_def batched_def broadcast2_def ZEROS_def Let_def)

section \<open>The spread of the action distribution\<close>










section \<open>What the actor reads\<close>

lemma run_actor_reads:
  assumes "obs1 ''timestep_phase_observation'' = obs2 ''timestep_phase_observation''"
    and "obs1 ''joint_position_observation'' = obs2 ''joint_position_observation''"
    and "obs1 ''joint_velocity_observation'' = obs2 ''joint_velocity_observation''"
    and "obs1 ''projected_gravity_observation'' = obs2 ''projected_gravity_observation''"
    and "obs1 ''sensor_observation_imu_gyro'' = obs2 ''sensor_observation_imu_gyro''"
    and "obs1 ''sensor_observation_imu_acc'' = obs2 ''sensor_observation_imu_acc''"
    and "cmd1 ''linear_velocity_command'' = cmd2 ''linear_velocity_command''"
    and "cmd1 ''angular_velocity_command'' = cmd2 ''angular_velocity_command''"
    and "cmd1 ''gait_frequency_command'' = cmd2 ''gait_frequency_command''"
  shows "run_actor m obs1 cmd1 c = run_actor m obs2 cmd2 c"
  using assms by (simp add: run_actor_def getitem_def)

lemma example_run_actor_runs:
  "\<exists>dist_n c'. run_actor example_actor example_observations example_commands [[0]] = Inr (dist_n, c')"
  by (simp add: run_actor_def example_observations_def example_commands_def
      Actor_forward_def example_actor_def getindex_def reshape_def jnp_stack_def
      NUM_JOINTS_def Let_def)

lemma example_sample_action_runs:
  "\<exists>a. sample_action example_methods example_model ([[0]], [[3]]) example_observations
          example_commands 7 argmax = Inr a"
  using example_run_actor_runs
  by (auto simp: sample_action_def example_model_def)

section \<open>The scan over a trajectory\<close>

lemma scan_snoc:
  "scan f c (xs @ [x]) =
     and_then (scan f c xs) (\<lambda>(c', ys).
     and_then (f c' x) (\<lambda>(c'', y). Inr (c'', ys @ [y])))"
proof (induction xs arbitrary: c)
  case Nil
  show ?case by (cases "f c x") (simp_all split: prod.splits)
next
  case (Cons a xs)
  show ?case
  proof (cases "f c a")
    case (Inl e)
    then show ?thesis by simp
  next
    case (Inr r)
    obtain c1 y1 where r: "r = (c1, y1)" by (cases r)
    show ?thesis
      using Inr r Cons.IH [of c1]
      by (cases "scan f c1 xs") (auto split: prod.splits sum.splits simp: and_then_def)
  qed
qed

lemma map2_select:
  "length xs = length ys \<Longrightarrow> map2 (\<lambda>x y. if c then x else y) xs ys = (if c then xs else ys)"
  by (induction xs ys rule: list_induct2) simp_all

lemma jnp_where_same:
  "length xs = length ys \<Longrightarrow> jnp_where c xs ys = Inr (if c then xs else ys)"
  using map2_select [of xs ys c] by (simp add: jnp_where_def broadcast2_def)

lemma collect_where_rows:
  "list_all (\<lambda>row. length row = length z) y \<Longrightarrow>
     collect (map2 (jnp_where c) (replicate (length y) z) y)
       = Inr (if c then replicate (length y) z else y)"
  by (induction y) (simp_all add: jnp_where_same)

lemma where_carry_select:
  assumes "has_shape y d h"
  shows "where_carry c (replicate d (replicate h 0)) y
       = Inr (if c then replicate d (replicate h 0) else y)"
  using assms collect_where_rows [of "replicate h 0" y c]
  by (auto simp: has_shape_def where_carry_def batched2_def)

lemma unstack_length: "length (unstack tr) = length (done tr)"
  by (simp add: unstack_def)

lemma unstack_done: "t < length (done tr) \<Longrightarrow> done (unstack tr ! t) = done tr ! t"
  by (simp add: unstack_def)

lemma scan_length: "scan f c xs = Inr (cf, ys) \<Longrightarrow> length ys = length xs"
proof (induction xs arbitrary: c cf ys)
  case Nil
  then show ?case by simp
next
  case (Cons a xs)
  then show ?case
    by (auto simp: and_then_eq_Inr split: prod.splits)
qed

lemma scan_take:
  "scan f c xs = Inr (cf, ys) \<Longrightarrow> \<exists>c'. scan f c (take n xs) = Inr (c', take n ys)"
proof (induction xs arbitrary: c cf ys n)
  case Nil
  then show ?case by simp
next
  case (Cons a xs)
  show ?case
  proof (cases n)
    case 0
    then show ?thesis by simp
  next
    case (Suc k)
    from Cons.prems obtain c1 y1 ys1 where
      a: "f c a = Inr (c1, y1)" and r: "scan f c1 xs = Inr (cf, ys1)" and ys: "ys = y1 # ys1"
      by (auto simp: and_then_eq_Inr split: prod.splits)
    from Cons.IH [OF r, of k] obtain c' where "scan f c1 (take k xs) = Inr (c', take k ys1)"
      by blast
    then show ?thesis using a Suc ys by simp
  qed
qed

lemma scan_step:
  assumes "scan f c xs = Inr (cf, ys)" and "t < length xs"
  shows "\<exists>c_t c'. scan f c (take t xs) = Inr (c_t, take t ys)
           \<and> f c_t (xs ! t) = Inr (c', ys ! t)
           \<and> scan f c (take (Suc t) xs) = Inr (c', take (Suc t) ys)"
proof -
  have len: "length ys = length xs" using assms(1) by (rule scan_length)
  obtain c_t where pre: "scan f c (take t xs) = Inr (c_t, take t ys)"
    using scan_take [OF assms(1), of t] by blast
  obtain c' where suc: "scan f c (take (Suc t) xs) = Inr (c', take (Suc t) ys)"
    using scan_take [OF assms(1), of "Suc t"] by blast
  have tx: "take (Suc t) xs = take t xs @ [xs ! t]"
    using assms(2) by (simp add: take_Suc_conv_app_nth)
  have ty: "take (Suc t) ys = take t ys @ [ys ! t]"
    using assms(2) len by (simp add: take_Suc_conv_app_nth)
  from suc have "f c_t (xs ! t) = Inr (c', ys ! t)"
    unfolding tx ty scan_snoc pre
    by (auto simp: and_then_eq_Inr split: prod.splits)
  with pre suc show ?thesis by blast
qed

lemma rnn_loop_shape:
  assumes "rnn_loop cells i memory x acc = Inr (x', out)"
    and "\<forall>rnn \<in> set cells. \<forall>x h y. rnn x h = Inr y \<longrightarrow> length y = n"
  shows "\<exists>new. out = acc @ new \<and> length new = length cells \<and> list_all (\<lambda>row. length row = n) new"
  using assms
proof (induction cells arbitrary: i x acc)
  case Nil
  then show ?case by simp
next
  case (Cons rnn rest)
  from Cons.prems(1) obtain h y where
    y: "rnn x h = Inr y" and r: "rnn_loop rest (Suc i) memory y (acc @ [y]) = Inr (x', out)"
    by (auto simp: and_then_eq_Inr)
  from Cons.prems(2) y have ly: "length y = n" by auto
  from Cons.IH [OF r] Cons.prems(2) obtain new where
    "out = (acc @ [y]) @ new" "length new = length rest" "list_all (\<lambda>row. length row = n) new"
    by auto
  then have "out = acc @ (y # new) \<and> length (y # new) = length (rnn # rest)
      \<and> list_all (\<lambda>row. length row = n) (y # new)"
    using ly by simp
  then show ?case by blast
qed

lemma jnp_stack_same: "jnp_stack xs = Inr ys \<Longrightarrow> ys = xs"
  by (auto simp: jnp_stack_def split: if_splits)

lemma run_actor_shape:
  assumes "run_actor m observations cmds c = Inr (dist_n, c')"
    and "\<forall>rnn \<in> set (Actor.rnns m). \<forall>x h y. rnn x h = Inr y \<longrightarrow> length y = n"
  shows "has_shape c' (length (Actor.rnns m)) n"
proof -
  from assms(1) obtain obs_n where "Actor_forward m obs_n c = Inr (dist_n, c')"
    by (auto simp: run_actor_def and_then_eq_Inr Let_def)
  then obtain x0 x_n out where
    "rnn_loop (Actor.rnns m) 0 c x0 [] = Inr (x_n, out)" and "jnp_stack out = Inr c'"
    by (auto simp: Actor_forward_def and_then_eq_Inr Let_def split: prod.splits)
  then show ?thesis
    using rnn_loop_shape [OF _ assms(2), of 0 c x0 "[]" x_n out] jnp_stack_same [of out c']
    by (auto simp: has_shape_def)
qed

lemma run_critic_shape:
  assumes "run_critic m observations cmds c = Inr (val, c')"
    and "\<forall>rnn \<in> set (Critic.rnns m). \<forall>x h y. rnn x h = Inr y \<longrightarrow> length y = n"
  shows "has_shape c' (length (Critic.rnns m)) n"
proof -
  from assms(1) obtain obs_n where "Critic_forward m obs_n c = Inr (val, c')"
    by (auto simp: run_critic_def and_then_eq_Inr Let_def)
  then obtain x0 x_n out where
    "rnn_loop (Critic.rnns m) 0 c x0 [] = Inr (x_n, out)" and "jnp_stack out = Inr c'"
    by (auto simp: Critic_forward_def and_then_eq_Inr Let_def split: prod.splits)
  then show ?thesis
    using rnn_loop_shape [OF _ assms(2), of 0 c x0 "[]" x_n out] jnp_stack_same [of out c']
    by (auto simp: has_shape_def)
qed

lemma squeeze_last_eq: "squeeze_last val = Inr v \<longleftrightarrow> val = [v]"
  by (cases val rule: remdups_adj.cases) (simp_all add: squeeze_last_def)

lemma scan_fn_parts:
  assumes "scan_fn lib config model rng (actor_carry, critic_carry) x = Inr (c', y)"
  shows "\<exists>actor_dist next_actor_carry lps v next_critic_carry a b.
      run_actor (actor model) (obs x) (command x) actor_carry = Inr (actor_dist, next_actor_carry)
    \<and> log_prob lib actor_dist (Trajectory.action x) = Inr lps
    \<and> run_critic (critic model) (obs x) (command x) critic_carry = Inr ([v], next_critic_carry)
    \<and> y = \<lparr>log_probs = lps, values = v\<rparr>
    \<and> where_carry (done x) (replicate (depth config) (replicate (hidden_size config) 0))
          next_actor_carry = Inr a
    \<and> where_carry (done x) (replicate (depth config) (replicate (hidden_size config) 0))
          next_critic_carry = Inr b
    \<and> c' = (a, b)"
  using assms
  by (auto simp: scan_fn_def and_then_eq_Inr Let_def get_initial_model_carry_def squeeze_last_eq
      split: prod.splits)


lemma example_gru_step:
  "scan_fn example_methods example_config example_gru_model (7::nat) ([[a]], [[b]])
     \<lparr>obs = example_observations, command = example_commands, action = replicate 20 0,
      qpos = replicate 27 0, done = d, success = False, timestep = ts\<rparr>
   = Inr ((if d then [[0]] else [[a + 17 / 10]], if d then [[0]] else [[b + 77 / 10]]),
          \<lparr>log_probs = replicate 20 0, values = b + 77 / 10\<rparr>)"
  by (simp add: scan_fn_def run_actor_def run_critic_def example_observations_def
      example_commands_def Actor_forward_def Critic_forward_def example_gru_model_def
      example_actor_def example_critic_def example_methods_def example_config_def
      getindex_def reshape_def jnp_stack_def NUM_JOINTS_def Let_def squeeze_last_def
      get_initial_model_carry_def where_carry_def batched2_def jnp_where_def broadcast2_def
      sum_list_replicate)


lemma example_episode_end_steps:
  "unstack example_episode_end =
     [\<lparr>obs = example_observations, command = example_commands, action = replicate 20 0,
       qpos = replicate 27 0, done = False, success = False, timestep = 0\<rparr>,
      \<lparr>obs = example_observations, command = example_commands, action = replicate 20 0,
       qpos = replicate 27 0, done = False, success = False, timestep = 1 / 50\<rparr>,
      \<lparr>obs = example_observations, command = example_commands, action = replicate 20 0,
       qpos = replicate 27 0, done = True, success = False, timestep = 2 / 50\<rparr>,
      \<lparr>obs = example_observations, command = example_commands, action = replicate 20 0,
       qpos = replicate 27 0, done = False, success = False, timestep = 3 / 50\<rparr>]"
  by (simp add: unstack_def example_episode_end_def upt_rec option.map_comp comp_def
      option.map_ident)

lemma example_episode_end_runs:
  "\<exists>ppo_variables next_model_carry.
     get_ppo_variables example_methods example_config example_gru_model example_episode_end
       ([[0]], [[0]]) (7::nat) = Inr (ppo_variables, next_model_carry)"
  by (simp add: get_ppo_variables_def example_episode_end_steps example_gru_step)

section \<open>The phase clock\<close>

text \<open>
  C2. Whatever the elapsed time and the gait frequency, when the norm of the concatenated
  linear and angular velocity commands is strictly below the stand-still threshold,
  \<^verbatim>\<open>observe\<close> replaces the phase pair by the frozen pair \<open>(pi / 2, pi)\<close> and returns the
  cosines and sines of that pair.
\<close>

theorem observe_stand_still:
  assumes "commands state ''gait_frequency_command'' = Some [f]"
    and "commands state ''linear_velocity_command'' = Some vel_cmd"
    and "commands state ''angular_velocity_command'' = Some ang_vel_cmd"
    and "linalg_norm (vel_cmd @ ang_vel_cmd) < TimestepPhaseObservation.stand_still_threshold self"
  shows "observe self state = Inr [cos (pi / 2), cos pi, sin (pi / 2), sin pi]"
  using assms
  by (simp add: observe_def TimestepObservation_observe_def observe_phase_value
      jnp_where_def broadcast2_def del: cos_pi sin_pi cos_pi_half sin_pi_half)

theorem observe_stand_still_witness:
  "observe \<lparr>TimestepPhaseObservation.ctrl_dt = 1 / 50, stand_still_threshold = 1 / 100\<rparr>
     \<lparr>commands = [''gait_frequency_command'' \<mapsto> [6 / 5], ''linear_velocity_command'' \<mapsto> [0, 0],
                  ''angular_velocity_command'' \<mapsto> [0]], time = 3\<rparr>
   = Inr [0, - 1, 1, 0]"
  using observe_stand_still [of "\<lparr>commands = [''gait_frequency_command'' \<mapsto> [6 / 5], ''linear_velocity_command'' \<mapsto> [0, 0],
                  ''angular_velocity_command'' \<mapsto> [0]], time = 3\<rparr>" "6 / 5" "[0, 0]" "[0]"
       "\<lparr>TimestepPhaseObservation.ctrl_dt = 1 / 50, stand_still_threshold = 1 / 100\<rparr>"]
  by (simp add: linalg_norm_def)

text \<open>
  C4, as amended. For an elapsed time \<open>t \<ge> 0\<close>, a gait frequency \<open>f > 0\<close> and a positive
  control timestep, both phase values of the clock, in \<^verbatim>\<open>observe\<close> before the override and
  in \<^verbatim>\<open>get_reward\<close>, lie in the half-open interval from \<open>- pi\<close> (included) to \<open>pi\<close> (excluded).
\<close>

theorem phase_range:
  assumes "0 \<le> t" and "0 < f"
    and "0 < TimestepPhaseObservation.ctrl_dt ob" and "0 < FeetPhaseReward.ctrl_dt rw"
  shows "(\<exists>p q. TimestepPhaseObservation_phase ob [f] [t] = Inr [p, q]
            \<and> - pi \<le> p \<and> p < pi \<and> - pi \<le> q \<and> q < pi)
       \<and> (\<exists>p q. FeetPhaseReward_phase rw [f] t = Inr [p, q]
            \<and> - pi \<le> p \<and> p < pi \<and> - pi \<le> q \<and> q < pi)"
proof -
  let ?a = "t / TimestepPhaseObservation.ctrl_dt ob * (2 * pi * f * TimestepPhaseObservation.ctrl_dt ob)"
  let ?b = "of_int (jnp_int32 (t / FeetPhaseReward.ctrl_dt rw)) * (2 * pi * f * FeetPhaseReward.ctrl_dt rw)"
  have a: "0 \<le> ?a" using assms by simp
  have "0 \<le> jnp_int32 (t / FeetPhaseReward.ctrl_dt rw)"
    using assms by (simp add: jnp_int32_nonneg)
  then have b: "0 \<le> ?b" using assms by simp
  have a': "0 \<le> pi + ?a" using a by (simp add: add_nonneg_nonneg)
  have b': "0 \<le> pi + ?b" using b by (simp add: add_nonneg_nonneg)
  show ?thesis
    unfolding observe_phase_value reward_phase_value
    using wrap_range [OF a] wrap_range [OF b] wrap_range [OF a'] wrap_range [OF b']
    by simp
qed

theorem phase_range_witness:
  "(\<exists>p q. TimestepPhaseObservation_phase
            \<lparr>TimestepPhaseObservation.ctrl_dt = 1 / 50, stand_still_threshold = 1 / 100\<rparr> [1] [0]
            = Inr [p, q] \<and> - pi \<le> p \<and> p < pi \<and> - pi \<le> q \<and> q < pi)
   \<and> (\<exists>p q. FeetPhaseReward_phase
            \<lparr>FeetPhaseReward.scale = 1, feet_pos_obs_name = ''feet_position_observation'',
             linear_velocity_cmd_name = ''linear_velocity_command'',
             angular_velocity_cmd_name = ''angular_velocity_command'',
             gait_freq_cmd_name = ''gait_frequency_command'',
             max_foot_height = 3 / 25, ctrl_dt = 1 / 50, sensitivity = 1 / 100,
             foot_default_height = 0, stand_still_threshold = 1 / 100\<rparr> [1] 0
            = Inr [p, q] \<and> - pi \<le> p \<and> p < pi \<and> - pi \<le> q \<and> q < pi)"
  using phase_range [of 0 1
      "\<lparr>TimestepPhaseObservation.ctrl_dt = 1 / 50, stand_still_threshold = 1 / 100\<rparr>"
      "\<lparr>FeetPhaseReward.scale = 1, feet_pos_obs_name = ''feet_position_observation'',
             linear_velocity_cmd_name = ''linear_velocity_command'',
             angular_velocity_cmd_name = ''angular_velocity_command'',
             gait_freq_cmd_name = ''gait_frequency_command'',
             max_foot_height = 3 / 25, ctrl_dt = 1 / 50, sensitivity = 1 / 100,
             foot_default_height = 0, stand_still_threshold = 1 / 100\<rparr>"]
  by simp

text \<open>
  The interval of the claim as stated, open at \<open>- pi\<close> and closed at \<open>pi\<close>, is left at the
  start of an episode: at \<open>t = 0\<close> the second foot starts from \<open>pi\<close>, and the wrap
  \<^verbatim>\<open>fmod(phase + pi, 2 * pi) - pi\<close> sends \<open>pi\<close> to \<open>- pi\<close>.
\<close>

theorem phase_at_start_counterexample:
  "TimestepPhaseObservation_phase
     \<lparr>TimestepPhaseObservation.ctrl_dt = 1 / 50, stand_still_threshold = 1 / 100\<rparr> [1] [0]
     = Inr [0, - pi]
   \<and> - pi \<notin> {- pi <.. pi}"
  by (simp add: observe_phase_value fmod_pi fmod_two_pi)

text \<open>
  C5, as amended. In exact real arithmetic, for an elapsed time \<open>t \<ge> 0\<close>, a gait frequency
  \<open>f > 0\<close> and a positive control timestep, the phase formula of \<^verbatim>\<open>observe\<close> before the
  override has period \<open>1 / f\<close>: the phase advances by \<open>2 * pi * f * t\<close>, a full turn every
  \<open>1 / f\<close>. The program evaluates the formula in 32-bit floats, where the two phases agree
  up to rounding only, and next to the wrap point up to a full turn.
\<close>

theorem phase_periodic:
  assumes "0 \<le> t" and "0 < f" and "0 < TimestepPhaseObservation.ctrl_dt self"
  shows "TimestepPhaseObservation_phase self [f] [t + 1 / f]
       = TimestepPhaseObservation_phase self [f] [t]"
proof -
  let ?dt = "TimestepPhaseObservation.ctrl_dt self"
  let ?a = "t / ?dt * (2 * pi * f * ?dt)"
  have adv: "(t + 1 / f) / ?dt * (2 * pi * f * ?dt) = ?a + 2 * pi"
    using assms by (simp add: field_simps)
  have a: "0 \<le> ?a" using assms by simp
  have "fmod (?a + 2 * pi + pi) (2 * pi) = fmod (?a + pi + 2 * pi) (2 * pi)"
    by (simp add: add.commute add.left_commute)
  also have "\<dots> = fmod (?a + pi) (2 * pi)"
    using a by (intro fmod_add_period) (simp_all add: add_nonneg_nonneg)
  finally have one: "fmod (?a + 2 * pi + pi) (2 * pi) = fmod (?a + pi) (2 * pi)" .
  have "fmod (pi + (?a + 2 * pi) + pi) (2 * pi) = fmod (pi + ?a + pi + 2 * pi) (2 * pi)"
    by (simp add: add.commute add.left_commute)
  also have "\<dots> = fmod (pi + ?a + pi) (2 * pi)"
    using a by (intro fmod_add_period) (simp_all add: add_nonneg_nonneg)
  finally have two: "fmod (pi + (?a + 2 * pi) + pi) (2 * pi) = fmod (pi + ?a + pi) (2 * pi)" .
  show ?thesis
    unfolding observe_phase_value adv using one two by simp
qed

theorem phase_periodic_witness:
  "TimestepPhaseObservation_phase
     \<lparr>TimestepPhaseObservation.ctrl_dt = 1 / 50, stand_still_threshold = 1 / 100\<rparr> [2] [3 + 1 / 2]
   = TimestepPhaseObservation_phase
     \<lparr>TimestepPhaseObservation.ctrl_dt = 1 / 50, stand_still_threshold = 1 / 100\<rparr> [2] [3]"
  using phase_periodic [of 3 2
      "\<lparr>TimestepPhaseObservation.ctrl_dt = 1 / 50, stand_still_threshold = 1 / 100\<rparr>"]
  by simp

text \<open>
  The period of the claim as stated, \<open>2 * pi / f\<close>, advances the phase by \<open>4 * pi * pi\<close>,
  which is no multiple of the turn \<open>2 * pi\<close> because \<open>2 * pi\<close> lies strictly between 6 and 7.
\<close>

theorem phase_period_counterexample:
  "TimestepPhaseObservation_phase
     \<lparr>TimestepPhaseObservation.ctrl_dt = 1 / 50, stand_still_threshold = 1 / 100\<rparr> [1] [0 + 2 * pi / 1]
   \<noteq> TimestepPhaseObservation_phase
     \<lparr>TimestepPhaseObservation.ctrl_dt = 1 / 50, stand_still_threshold = 1 / 100\<rparr> [1] [0]"
proof
  assume eq: "TimestepPhaseObservation_phase
     \<lparr>TimestepPhaseObservation.ctrl_dt = 1 / 50, stand_still_threshold = 1 / 100\<rparr> [1] [0 + 2 * pi / 1]
   = TimestepPhaseObservation_phase
     \<lparr>TimestepPhaseObservation.ctrl_dt = 1 / 50, stand_still_threshold = 1 / 100\<rparr> [1] [0]"
  define k :: int where "k = trunc ((4 * (pi * pi) + pi) / (2 * pi))"
  have "fmod (4 * (pi * pi) + pi) (2 * pi) = pi"
    using eq by (simp add: observe_phase_value fmod_pi)
  then have "4 * (pi * pi) = 2 * pi * of_int k"
    unfolding fmod_def k_def by linarith
  then have "2 * pi = of_int k" by simp
  moreover have "6 < 2 * pi" "2 * pi < 7"
    using pi_greater_3 pi_less_7_halves by simp_all
  ultimately have "6 < (of_int k :: real)" "(of_int k :: real) < 7" by simp_all
  then have "6 < k" "k < 7" by linarith+
  then show False by simp
qed

section \<open>The desired foot height\<close>

text \<open>
  C7. For every swing height, \<^verbatim>\<open>gait_phase\<close> is 0 at \<open>phi = - pi\<close> (\<open>x = 0\<close>) and at
  \<open>phi = pi\<close> (\<open>x = 1\<close>); at the branch boundary \<open>x = 1 / 2\<close> (\<open>phi = 0\<close>) the rising branch and the
  descending branch both give the swing height, the function is continuous there, and its
  limit from above is the swing height.
\<close>

theorem gait_phase_endpoints:
  "gait_phase self (- pi) swing_height = 0
   \<and> gait_phase self pi swing_height = 0
   \<and> gait_phase self 0 swing_height = swing_height
   \<and> cubic_bezier_interpolation 0 swing_height (2 * (1 / 2)) = swing_height
   \<and> cubic_bezier_interpolation swing_height 0 (2 * (1 / 2) - 1) = swing_height
   \<and> isCont (\<lambda>phi. gait_phase self phi swing_height) 0
   \<and> ((\<lambda>phi. gait_phase self phi swing_height) \<longlongrightarrow> swing_height) (at_right 0)"
proof -
  have v1: "gait_phase self (- pi) swing_height = 0"
    by (simp add: gait_phase_def jnp_clip_def bezier_start)
  have v2: "gait_phase self pi swing_height = 0"
    by (simp add: gait_phase_def jnp_clip_def bezier_end)
  have v3: "gait_phase self 0 swing_height = swing_height"
    by (simp add: gait_phase_def jnp_clip_def bezier_end)
  have half: "jnp_clip ((0 + pi) / (2 * pi)) 0 1 = 1 / 2"
    by (simp add: jnp_clip_def)
  have "isCont (\<lambda>phi. (\<lambda>x. if x \<le> 1 / 2 then cubic_bezier_interpolation 0 swing_height (2 * x)
                else cubic_bezier_interpolation swing_height 0 (2 * x - 1))
              (jnp_clip ((phi + pi) / (2 * pi)) 0 1)) 0"
    using clip_cont branches_cont [of swing_height] unfolding half [symmetric]
    by (rule isCont_o2)
  then have c: "isCont (\<lambda>phi. gait_phase self phi swing_height) 0"
    by (simp add: gait_phase_def Let_def)
  from c have "((\<lambda>phi. gait_phase self phi swing_height) \<longlongrightarrow> gait_phase self 0 swing_height) (at 0)"
    by (simp add: isCont_def)
  then have r: "((\<lambda>phi. gait_phase self phi swing_height) \<longlongrightarrow> swing_height) (at_right 0)"
    unfolding v3 by (rule filterlim_at_split [THEN iffD1, THEN conjunct2])
  show ?thesis using v1 v2 v3 c r by (simp add: bezier_start bezier_end)
qed

section \<open>Reward gates\<close>

text \<open>
  C10. At a trajectory step where the norm of the concatenated linear and angular velocity
  commands equals the stand-still threshold, \<^verbatim>\<open>FeetPhaseReward\<close> (gated by
  \<^verbatim>\<open>command_norm > threshold\<close>) and \<^verbatim>\<open>StandStillReward\<close> (gated by
  \<^verbatim>\<open>cmd_norm < threshold\<close>) both return 0: both gates are strict.
\<close>

theorem threshold_closes_both_gates:
  assumes "command tr (FeetPhaseReward.linear_velocity_cmd_name fp) = Some vel_cmd"
    and "command tr (FeetPhaseReward.angular_velocity_cmd_name fp) = Some ang_vel_cmd"
    and "StandStillReward.linear_velocity_cmd_name ss = FeetPhaseReward.linear_velocity_cmd_name fp"
    and "StandStillReward.angular_velocity_cmd_name ss = FeetPhaseReward.angular_velocity_cmd_name fp"
    and "length vel_cmd = length ang_vel_cmd" and "t < length vel_cmd"
    and "linalg_norm (vel_cmd ! t @ ang_vel_cmd ! t) = FeetPhaseReward.stand_still_threshold fp"
    and "StandStillReward.stand_still_threshold ss = FeetPhaseReward.stand_still_threshold fp"
    and "FeetPhaseReward_get_reward fp tr = Inr rf" and "t < length rf"
    and "StandStillReward_get_reward ss tr = Inr rs" and "t < length rs"
  shows "rf ! t = 0 \<and> rs ! t = 0"
proof
  show "rf ! t = 0"
    using FeetPhaseReward_closed [OF assms(9) assms(1,2,5,6,10)] assms(7) by simp
  show "rs ! t = 0"
    using StandStillReward_closed [OF assms(11), of vel_cmd ang_vel_cmd t] assms by simp
qed


theorem threshold_closes_both_gates_witness:
  "\<exists>rf rs. FeetPhaseReward_get_reward example_FeetPhaseReward example_trajectory = Inr rf
     \<and> StandStillReward_get_reward example_StandStillReward example_trajectory = Inr rs
     \<and> linalg_norm ([1 / 100, 0] @ [0]) = FeetPhaseReward.stand_still_threshold example_FeetPhaseReward
     \<and> rf ! 0 = 0 \<and> rs ! 0 = 0"
proof -
  obtain a b where rf: "FeetPhaseReward_get_reward example_FeetPhaseReward example_trajectory = Inr [a, b]"
    using example_FeetPhaseReward_runs by blast
  obtain c d where rs: "StandStillReward_get_reward example_StandStillReward example_trajectory = Inr [c, d]"
    using example_StandStillReward_runs by blast
  have n: "linalg_norm ([1 / 100, 0] @ [0]) = FeetPhaseReward.stand_still_threshold example_FeetPhaseReward"
    by (simp add: linalg_norm_def example_FeetPhaseReward_def sqrt_hundredth)
  have "[a, b] ! 0 = 0 \<and> [c, d] ! 0 = 0"
  proof (rule threshold_closes_both_gates [where tr = example_trajectory
        and fp = example_FeetPhaseReward and ss = example_StandStillReward
        and vel_cmd = "[[1 / 100, 0], [1 / 2, 0]]" and ang_vel_cmd = "[[0], [0]]"])
    show "command example_trajectory (FeetPhaseReward.linear_velocity_cmd_name example_FeetPhaseReward)
        = Some [[1 / 100, 0], [1 / 2, 0]]"
      by (simp add: example_trajectory_def example_FeetPhaseReward_def)
    show "command example_trajectory (FeetPhaseReward.angular_velocity_cmd_name example_FeetPhaseReward)
        = Some [[0], [0]]"
      by (simp add: example_trajectory_def example_FeetPhaseReward_def)
    show "linalg_norm ([[1 / 100, 0], [1 / 2, 0]] ! 0 @ [[0], [0]] ! 0)
        = FeetPhaseReward.stand_still_threshold example_FeetPhaseReward"
      using n by simp
    show "FeetPhaseReward_get_reward example_FeetPhaseReward example_trajectory = Inr [a, b]"
      by (rule rf)
    show "StandStillReward_get_reward example_StandStillReward example_trajectory = Inr [c, d]"
      by (rule rs)
  qed (simp_all add: example_FeetPhaseReward_def example_StandStillReward_def)
  then show ?thesis using rf rs n by blast
qed

section \<open>The action distribution\<close>





section \<open>Actor and critic at sampling time\<close>

text \<open>
  C8. Two observation mappings and two command mappings that agree on the nine entries the
  actor is given (six observations, three commands) yield the same distribution and memory
  from \<^verbatim>\<open>run_actor\<close> and the same result from \<^verbatim>\<open>sample_action\<close>, however they differ
  elsewhere: the privileged entries never reach the actor.
\<close>

theorem actor_never_reads_privileged:
  assumes "obs1 ''timestep_phase_observation'' = obs2 ''timestep_phase_observation''"
    and "obs1 ''joint_position_observation'' = obs2 ''joint_position_observation''"
    and "obs1 ''joint_velocity_observation'' = obs2 ''joint_velocity_observation''"
    and "obs1 ''projected_gravity_observation'' = obs2 ''projected_gravity_observation''"
    and "obs1 ''sensor_observation_imu_gyro'' = obs2 ''sensor_observation_imu_gyro''"
    and "obs1 ''sensor_observation_imu_acc'' = obs2 ''sensor_observation_imu_acc''"
    and "cmd1 ''linear_velocity_command'' = cmd2 ''linear_velocity_command''"
    and "cmd1 ''angular_velocity_command'' = cmd2 ''angular_velocity_command''"
    and "cmd1 ''gait_frequency_command'' = cmd2 ''gait_frequency_command''"
  shows "run_actor (actor model) obs1 cmd1 c = run_actor (actor model) obs2 cmd2 c
       \<and> sample_action lib model model_carry obs1 cmd1 rng argmax
         = sample_action lib model model_carry obs2 cmd2 rng argmax"
  using run_actor_reads [OF assms] by (simp add: sample_action_def)

theorem actor_never_reads_privileged_witness:
  "example_observations ''feet_contact_observation''
     \<noteq> example_privileged_observations ''feet_contact_observation''
   \<and> run_actor (actor example_model) example_observations example_commands [[0]]
     = run_actor (actor example_model) example_privileged_observations example_commands [[0]]
   \<and> sample_action example_methods example_model ([[0]], [[0]]) example_observations
       example_commands 7 False
     = sample_action example_methods example_model ([[0]], [[0]]) example_privileged_observations
       example_commands 7 False"
proof -
  have "run_actor (actor example_model) example_observations example_commands [[0]]
     = run_actor (actor example_model) example_privileged_observations example_commands [[0]]
   \<and> sample_action example_methods example_model ([[0]], [[0]]) example_observations
       example_commands 7 False
     = sample_action example_methods example_model ([[0]], [[0]]) example_privileged_observations
       example_commands 7 False"
    by (rule actor_never_reads_privileged)
      (simp_all add: example_privileged_observations_def)
  moreover have "example_observations ''feet_contact_observation''
     \<noteq> example_privileged_observations ''feet_contact_observation''"
    by (simp add: example_observations_def example_privileged_observations_def)
  ultimately show ?thesis by blast
qed

text \<open>
  C9. \<^verbatim>\<open>sample_action\<close> returns the critic memory it was given: in the memory pair of the
  returned action only the actor component is advanced.
\<close>

theorem sample_action_keeps_critic_carry:
  assumes "sample_action lib model (actor_carry, critic_carry) observations cmds rng argmax = Inr a"
  shows "snd (Action.carry a) = critic_carry"
  using assms
  by (auto simp: sample_action_def and_then_eq_Inr Let_def split: prod.splits)

theorem sample_action_keeps_critic_carry_witness:
  "\<exists>a. sample_action example_methods example_model ([[0]], [[3]]) example_observations
          example_commands 7 True = Inr a
       \<and> snd (Action.carry a) = [[3]]"
proof -
  obtain a where run: "sample_action example_methods example_model ([[0]], [[3]])
      example_observations example_commands 7 True = Inr a"
    using example_sample_action_runs by blast
  from sample_action_keeps_critic_carry [OF run] run show ?thesis by blast
qed

section \<open>Memory reset in the trajectory scan\<close>

text \<open>
  C1. Let \<^verbatim>\<open>get_ppo_variables\<close> return for a trajectory, with a model whose recurrent layers
  are as many and as wide as the configuration says. Then at every step \<open>t\<close> the scan has a
  memory pair to feed in; the actor and the critic run on it, and their outputs are the
  entry \<open>t\<close> of the returned variables. The memory pair fed into step \<open>t + 1\<close> is the
  all-zero pair, which is what \<^verbatim>\<open>get_initial_model_carry\<close> returns, when \<open>done[t]\<close> holds,
  whatever memory step \<open>t\<close> computed, and the pair freshly computed at step \<open>t\<close> otherwise.
  The pair left after the last step is the one \<^verbatim>\<open>get_ppo_variables\<close> returns.
\<close>

theorem done_resets_memory:
  assumes "get_ppo_variables lib config model trajectory model_carry rng
             = Inr (ppo_variables, next_model_carry)"
    and "t < length (done trajectory)"
    and "length (Actor.rnns (actor model)) = depth config"
    and "length (Critic.rnns (critic model)) = depth config"
    and "\<forall>rnn \<in> set (Actor.rnns (actor model)).
           \<forall>x h y. rnn x h = Inr y \<longrightarrow> length y = hidden_size config"
    and "\<forall>rnn \<in> set (Critic.rnns (critic model)).
           \<forall>x h y. rnn x h = Inr y \<longrightarrow> length y = hidden_size config"
  shows "\<exists>actor_carry critic_carry actor_dist next_actor_carry lps v next_critic_carry.
      carry_into lib config model trajectory model_carry rng t = Inr (actor_carry, critic_carry)
    \<and> run_actor (actor model) (obs (unstack trajectory ! t)) (command (unstack trajectory ! t))
          actor_carry = Inr (actor_dist, next_actor_carry)
    \<and> log_prob lib actor_dist (Trajectory.action (unstack trajectory ! t)) = Inr lps
    \<and> run_critic (critic model) (obs (unstack trajectory ! t)) (command (unstack trajectory ! t))
          critic_carry = Inr ([v], next_critic_carry)
    \<and> ppo_variables ! t = \<lparr>log_probs = lps, values = v\<rparr>
    \<and> length ppo_variables = length (done trajectory)
    \<and> carry_into lib config model trajectory model_carry rng (Suc t)
        = Inr (if done trajectory ! t
               then (replicate (depth config) (replicate (hidden_size config) 0),
                     replicate (depth config) (replicate (hidden_size config) 0))
               else (next_actor_carry, next_critic_carry))
    \<and> get_initial_model_carry config rng
        = (replicate (depth config) (replicate (hidden_size config) 0),
           replicate (depth config) (replicate (hidden_size config) 0))
    \<and> carry_into lib config model trajectory model_carry rng (length (done trajectory))
        = Inr next_model_carry"
proof -
  let ?F = "scan_fn lib config model rng"
  let ?xs = "unstack trajectory"
  let ?Z = "replicate (depth config) (replicate (hidden_size config) (0::real))"
  have sc: "scan ?F model_carry ?xs = Inr (next_model_carry, ppo_variables)"
    using assms(1) by (auto simp: get_ppo_variables_def and_then_eq_Inr)
  have t: "t < length ?xs" using assms(2) by (simp add: unstack_length)
  from scan_step [OF sc t] obtain c_t c' where
    pre: "scan ?F model_carry (take t ?xs) = Inr (c_t, take t ppo_variables)" and
    step: "?F c_t (?xs ! t) = Inr (c', ppo_variables ! t)" and
    suc: "scan ?F model_carry (take (Suc t) ?xs) = Inr (c', take (Suc t) ppo_variables)"
    by blast
  obtain actor_carry critic_carry where c_t: "c_t = (actor_carry, critic_carry)" by (cases c_t)
  from scan_fn_parts [OF step [unfolded c_t]]
  obtain actor_dist next_actor_carry lps v next_critic_carry a b where
    act: "run_actor (actor model) (obs (?xs ! t)) (command (?xs ! t)) actor_carry
            = Inr (actor_dist, next_actor_carry)" and
    lp: "log_prob lib actor_dist (Trajectory.action (?xs ! t)) = Inr lps" and
    crit: "run_critic (critic model) (obs (?xs ! t)) (command (?xs ! t)) critic_carry
            = Inr ([v], next_critic_carry)" and
    y: "ppo_variables ! t = \<lparr>log_probs = lps, values = v\<rparr>" and
    wa: "where_carry (done (?xs ! t)) ?Z next_actor_carry = Inr a" and
    wb: "where_carry (done (?xs ! t)) ?Z next_critic_carry = Inr b" and
    c': "c' = (a, b)"
    by blast
  have sa: "has_shape next_actor_carry (depth config) (hidden_size config)"
    using run_actor_shape [OF act assms(5)] assms(3) by simp
  have sb: "has_shape next_critic_carry (depth config) (hidden_size config)"
    using run_critic_shape [OF crit assms(6)] assms(4) by simp
  have d: "done (?xs ! t) = done trajectory ! t" using assms(2) by (rule unstack_done)
  have a: "a = (if done trajectory ! t then ?Z else next_actor_carry)"
    using wa where_carry_select [OF sa, of "done (?xs ! t)"] d by simp
  have b: "b = (if done trajectory ! t then ?Z else next_critic_carry)"
    using wb where_carry_select [OF sb, of "done (?xs ! t)"] d by simp
  have into: "carry_into lib config model trajectory model_carry rng t
      = Inr (actor_carry, critic_carry)"
    by (simp add: carry_into_def pre c_t)
  have nxt: "carry_into lib config model trajectory model_carry rng (Suc t)
      = Inr (if done trajectory ! t then (?Z, ?Z) else (next_actor_carry, next_critic_carry))"
    by (simp add: carry_into_def suc c' a b)
  have len: "length ppo_variables = length (done trajectory)"
    using scan_length [OF sc] by (simp add: unstack_length)
  have init: "get_initial_model_carry config rng = (?Z, ?Z)"
    by (simp add: get_initial_model_carry_def)
  have final: "carry_into lib config model trajectory model_carry rng (length (done trajectory))
      = Inr next_model_carry"
    using sc by (simp add: carry_into_def unstack_length [symmetric])
  from into act lp crit y len nxt init final show ?thesis by blast
qed

theorem done_resets_memory_witness:
  "\<exists>ppo_variables next_model_carry.
     get_ppo_variables example_methods example_config example_gru_model example_episode_end
       ([[0]], [[0]]) (7::nat) = Inr (ppo_variables, next_model_carry)
     \<and> length ppo_variables = 4
     \<and> done example_episode_end ! 2
     \<and> carry_into example_methods example_config example_gru_model example_episode_end
         ([[0]], [[0]]) (7::nat) (Suc 2) = Inr ([[0]], [[0]])
     \<and> get_initial_model_carry example_config (7::nat) = ([[0]], [[0]])"
proof -
  obtain ppo_variables next_model_carry where run:
    "get_ppo_variables example_methods example_config example_gru_model example_episode_end
       ([[0]], [[0]]) (7::nat) = Inr (ppo_variables, next_model_carry)"
    using example_episode_end_runs by blast
  have d: "done example_episode_end ! 2" by (simp add: example_episode_end_def)
  have t: "2 < length (done example_episode_end)" by (simp add: example_episode_end_def)
  have l1: "length (Actor.rnns (actor example_gru_model)) = depth example_config"
    and l2: "length (Critic.rnns (critic example_gru_model)) = depth example_config"
    and l3: "\<forall>rnn \<in> set (Actor.rnns (actor example_gru_model)).
           \<forall>x h y. rnn x h = Inr y \<longrightarrow> length y = hidden_size example_config"
    and l4: "\<forall>rnn \<in> set (Critic.rnns (critic example_gru_model)).
           \<forall>x h y. rnn x h = Inr y \<longrightarrow> length y = hidden_size example_config"
    by (auto simp: example_gru_model_def example_actor_def example_critic_def example_config_def)
  from done_resets_memory [OF run t l1 l2 l3 l4] d
  have "length ppo_variables = 4"
    and "carry_into example_methods example_config example_gru_model example_episode_end
         ([[0]], [[0]]) 7 (Suc 2) = Inr ([[0]], [[0]])"
    and "get_initial_model_carry example_config (7::nat) = ([[0]], [[0]])"
    by (auto simp: example_config_def example_episode_end_def)
  with run d show ?thesis by blast
qed

section \<open>Missing keys in the reward terms\<close>

text \<open>
  C6. The claim asks every reward term to raise a descriptive configuration error for every
  key it reads. The terms do so for some keys only. With the command entry missing,
  \<^verbatim>\<open>LinearVelocityTrackingReward\<close> and \<^verbatim>\<open>StandStillReward\<close> fail in the subscript of the
  mapping, with its bare \<^verbatim>\<open>KeyError\<close>; so does \<^verbatim>\<open>FeetSlipPenalty\<close> without
  the centre-of-mass velocity observation. The last line is the descriptive error that
  \<^verbatim>\<open>LinearVelocityTrackingReward\<close> raises for the observation key it does check.
\<close>

theorem unchecked_keys_raise_KeyError:
  "LinearVelocityTrackingReward_get_reward example_LinearVelocityTrackingReward
       example_unwired_trajectory
     = Inl (KeyError ''linear_velocity_command'')
   \<and> StandStillReward_get_reward example_StandStillReward example_unwired_trajectory
     = Inl (KeyError ''linear_velocity_command'')
   \<and> StandStillReward_get_reward example_StandStillReward
       (example_unwired_trajectory
          \<lparr>command := [''linear_velocity_command'' \<mapsto> [[1 / 2, 0]]]\<rparr>)
     = Inl (KeyError ''angular_velocity_command'')
   \<and> FeetSlipPenalty_get_reward example_FeetSlipPenalty example_unwired_trajectory
     = Inl (KeyError ''center_of_mass_velocity_observation'')
   \<and> LinearVelocityTrackingReward_get_reward example_LinearVelocityTrackingReward
       (example_unwired_trajectory \<lparr>obs := Map.empty\<rparr>)
     = Inl (ValueError
         ''Observation sensor_observation_base_site_linvel not found; add it as an observation in your task.'')"
  by (simp add: LinearVelocityTrackingReward_get_reward_def StandStillReward_get_reward_def
      FeetSlipPenalty_get_reward_def example_LinearVelocityTrackingReward_def
      example_StandStillReward_def example_FeetSlipPenalty_def example_unwired_trajectory_def)

end
